theory Spec2Isabelle
  imports Complex_Main "HOL-Library.Sublist"
begin

section \<open>Go library functions used by the harness\<close>

subsection \<open>The formatting verbs of fmt.Sprintf\<close>

text \<open>
  The harness formats integers with the verbs \<open>%d\<close>, \<open>%02d\<close> and \<open>%03d\<close>.
  \<open>fmt_nat\<close> writes a natural number in decimal; \<open>fmt_d\<close> is \<open>%d\<close> on a Go int;
  \<open>fmt_0d width\<close> is \<open>%0<width>d\<close>: Go pads with zeros after the sign, and the sign
  counts towards the width.
\<close>

definition digit :: "nat \<Rightarrow> char" where
  "digit n = ''0123456789'' ! n"

function fmt_nat :: "nat \<Rightarrow> string" where
  "fmt_nat n = (if n < 10 then [digit n] else fmt_nat (n div 10) @ [digit (n mod 10)])"
  by pat_completeness auto
termination
  by (relation "measure (\<lambda>n. n)") auto

declare fmt_nat.simps [simp del]

definition fmt_d :: "int \<Rightarrow> string" where
  "fmt_d i = (if i < 0 then CHR ''-'' # fmt_nat (nat (- i)) else fmt_nat (nat i))"

definition zero_pad :: "nat \<Rightarrow> string \<Rightarrow> string" where
  "zero_pad width s = replicate (width - length s) CHR ''0'' @ s"

definition fmt_0d :: "nat \<Rightarrow> int \<Rightarrow> string" where
  "fmt_0d width i =
     (if i < 0 then CHR ''-'' # zero_pad (width - 1) (fmt_nat (nat (- i)))
      else zero_pad width (fmt_nat (nat i)))"

subsection \<open>strings.Contains and strings.Replace\<close>

definition Contains :: "string \<Rightarrow> string \<Rightarrow> bool" where
  "Contains s substr = sublist substr s"

text \<open>\<open>strings.Replace(s, "/", "_", -1)\<close>: every slash becomes an underscore.\<close>

definition Replace_slash :: "string \<Rightarrow> string" where
  "Replace_slash s = map (\<lambda>c. if c = CHR ''/'' then CHR ''_'' else c) s"

subsection \<open>Machine integers and package time\<close>

text \<open>
  A Go \<open>int\<close> and a \<open>time.Duration\<close> are 64-bit signed integers. They are modelled as
  \<open>int\<close> with the wrap-around (\<open>int64\<close>) or the saturation (\<open>Sub\<close>) written out.
  Integer division in Go truncates towards zero (\<open>quo\<close>).
  An instant (\<open>time.Time\<close>) is a number of nanoseconds on one common time line.
\<close>

definition int64 :: "int \<Rightarrow> int" where
  "int64 x = (x + 2 ^ 63) mod 2 ^ 64 - 2 ^ 63"

definition quo :: "int \<Rightarrow> int \<Rightarrow> int" where
  "quo a b = sgn a * sgn b * (\<bar>a\<bar> div \<bar>b\<bar>)"

type_synonym Time = int
type_synonym Duration = int

definition maxDuration :: Duration where
  "maxDuration = 2 ^ 63 - 1"

definition minDuration :: Duration where
  "minDuration = - (2 ^ 63)"

text \<open>\<open>t.Sub(u)\<close> is the duration \<open>t - u\<close>, saturated at the largest and smallest Duration.\<close>

definition Sub :: "Time \<Rightarrow> Time \<Rightarrow> Duration" where
  "Sub t u = (if t - u > maxDuration then maxDuration
              else if t - u < minDuration then minDuration
              else t - u)"

definition Second :: Duration where
  "Second = 1000000000"

subsection \<open>Floating-point numbers\<close>

text \<open>
  Values of type \<open>float64\<close> and \<open>float32\<close> are kept abstract: \<open>'d\<close> is the type of
  float64 values, \<open>'f\<close> the type of float32 values, and the conversions and the float32
  multiplication that the harness performs are the fields of a record that every
  function of the model takes as its first argument.
\<close>

record ('d, 'f) fpu =
  float32_of_int :: "int \<Rightarrow> 'f"
  float32_of_float64 :: "'d \<Rightarrow> 'f"
  float32_mul :: "'f \<Rightarrow> 'f \<Rightarrow> 'f"
  float64_of_int :: "int \<Rightarrow> 'd"
  float64_mul :: "'d \<Rightarrow> 'd \<Rightarrow> 'd"
  int_of_float64 :: "'d \<Rightarrow> int"

text \<open>
  An instance for evaluating the model on examples: rational numbers with exact
  arithmetic; the conversion to int truncates towards zero, as Go's does.
\<close>

definition exact_fpu :: "(rat, rat) fpu" where
  "exact_fpu = \<lparr> float32_of_int = of_int, float32_of_float64 = (\<lambda>x. x),
                 float32_mul = (\<lambda>x y. x * y), float64_of_int = of_int,
                 float64_mul = (\<lambda>x y. x * y),
                 int_of_float64 = (\<lambda>x. if x < 0 then - \<lfloor>- x\<rfloor> else \<lfloor>x\<rfloor>) \<rparr>"

section \<open>The scale-measurement harness\<close>

subsection \<open>Constants and data\<close>

definition qpsPerClient :: int where
  "qpsPerClient = 10"

definition iterationDuration :: Duration where
  "iterationDuration = 60 * Second"

definition processingTimeMillis :: int where
  "processingTimeMillis = 100"

definition targetConcurrency :: int where
  "targetConcurrency = 10"

definition concurrentClients :: "int list" where
  "concurrentClients = [10, 20, 40, 80, 160, 320]"

record scaleEvent =
  oldScale :: int
  newScale :: int
  timestamp :: Time

text \<open>
  Modelled from the spec: \<open>corev1.Endpoints\<close> and \<open>resources.ReadyAddressCount\<close> are
  not among the sources. The spec says that each update of the capacity signal
  "exposes a readable ready count for a named resource", so an Endpoints object is its
  name and its number of ready addresses, and \<open>ReadyAddressCount\<close> reads the latter.
\<close>

record Endpoints =
  GetName :: string
  readyAddresses :: int

definition ReadyAddressCount :: "Endpoints \<Rightarrow> int" where
  "ReadyAddressCount e = readyAddresses e"

text \<open>
  One call of the informer's \<open>UpdateFunc\<close>: the previously stored object, the new
  object, and the reading of \<open>time.Now()\<close> inside the handler.
\<close>

record notification =
  oldObj :: Endpoints
  newObj :: Endpoints
  now :: Time

subsection \<open>The store\<close>

text \<open>
  Every \<open>make\<close> of the harness allocates a new cell. \<open>slices\<close> holds the
  \<open>scaleEvents\<close> slices and \<open>chans\<close> the stop channels (\<open>True\<close> when closed), both
  addressed by position. \<open>informers\<close> lists the calls of \<open>controller.StartInformers\<close>:
  the stop channel given to the informer and the slice its handler appends to.
  \<open>tornDown\<close> lists the services passed to \<open>TearDown\<close>, and \<open>ran\<close> the names of the
  sub-tests started by \<open>t.Run\<close>.
\<close>

record world =
  slices :: "scaleEvent list list"
  chans :: "bool list"
  informers :: "(nat \<times> nat) list"
  tornDown :: "string list"
  ran :: "string list"

definition empty_world :: world where
  "empty_world = \<lparr> slices = [], chans = [], informers = [], tornDown = [], ran = [] \<rparr>"

definition make_slice :: "world \<Rightarrow> nat \<times> world" where
  "make_slice w = (length (slices w), w\<lparr> slices := slices w @ [[]] \<rparr>)"

definition make_chan :: "world \<Rightarrow> nat \<times> world" where
  "make_chan w = (length (chans w), w\<lparr> chans := chans w @ [False] \<rparr>)"

definition close_chan :: "nat \<Rightarrow> world \<Rightarrow> world" where
  "close_chan c w = w\<lparr> chans := (chans w)[c := True] \<rparr>"

definition append_event :: "nat \<Rightarrow> scaleEvent \<Rightarrow> world \<Rightarrow> world" where
  "append_event a ev w = w\<lparr> slices := (slices w)[a := slices w ! a @ [ev]] \<rparr>"

definition StartInformers :: "nat \<Rightarrow> nat \<Rightarrow> world \<Rightarrow> world" where
  "StartInformers stopCh a w = w\<lparr> informers := informers w @ [(stopCh, a)] \<rparr>"

definition TearDown :: "string \<Rightarrow> world \<Rightarrow> world" where
  "TearDown service w = w\<lparr> tornDown := tornDown w @ [service] \<rparr>"

subsection \<open>The watcher\<close>

text \<open>
  The handler registered with the endpoints informer. \<open>service\<close> is \<open>names.Service\<close>
  and \<open>a\<close> the address of the \<open>scaleEvents\<close> slice of the tier. The mutex taken around
  the append has no effect in a sequential run.
\<close>

definition UpdateFunc :: "string \<Rightarrow> nat \<Rightarrow> notification \<Rightarrow> world \<Rightarrow> world" where
  "UpdateFunc service a n w =
     (let newEndpoints = newObj n in
      if Contains (GetName newEndpoints) service then
        (let newNumAddresses = ReadyAddressCount newEndpoints;
             oldNumAddresses = ReadyAddressCount (oldObj n) in
         if newNumAddresses \<noteq> oldNumAddresses then
           (let event = \<lparr> oldScale = oldNumAddresses, newScale = newNumAddresses,
                           timestamp = now n \<rparr>
            in append_event a event w)
         else w)
      else w)"

text \<open>The informer calls the handler once per notification, in arrival order.\<close>

fun deliver :: "string \<Rightarrow> nat \<Rightarrow> notification list \<Rightarrow> world \<Rightarrow> world" where
  "deliver service a [] w = w"
| "deliver service a (n # ns) w = deliver service a ns (UpdateFunc service a n w)"

text \<open>What the claims say about the watcher, in the words of the spec.\<close>

definition changed :: "notification \<Rightarrow> bool" where
  "changed n = (ReadyAddressCount (newObj n) \<noteq> ReadyAddressCount (oldObj n))"

definition event_of :: "notification \<Rightarrow> scaleEvent" where
  "event_of n = \<lparr> oldScale = ReadyAddressCount (oldObj n),
                   newScale = ReadyAddressCount (newObj n), timestamp = now n \<rparr>"

text \<open>
  The notifications that an informer produces for one resource \<open>name\<close> whose ready count
  is observed as \<open>c\<close> and then, at the instants \<open>ts\<close>, as the counts \<open>cs\<close>: each one
  carries the last observed state and the new one.
\<close>

fun observations :: "string \<Rightarrow> int \<Rightarrow> (int \<times> Time) list \<Rightarrow> notification list" where
  "observations name c [] = []"
| "observations name c ((c', t) # rest) =
     \<lparr> oldObj = \<lparr> GetName = name, readyAddresses = c \<rparr>,
       newObj = \<lparr> GetName = name, readyAddresses = c' \<rparr>, now = t \<rparr>
     # observations name c' rest"

subsection \<open>The load generator and the report records\<close>

text \<open>
  \<open>loadgenerator.GeneratorOptions\<close>, the result types of the load generator and
  \<open>junit.TestCase\<close> belong to libraries; the records below keep the fields that the
  harness writes or reads. \<open>ErrorsPercentage\<close> is a method of the response, taken here
  as a field. \<open>CreatePerfTestCase\<close> builds a test case from a value, a metric name and
  a test name: the model keeps its three arguments.
\<close>

record 'd GeneratorOptions =
  Duration :: Duration
  NumThreads :: int
  NumConnections :: int
  Domain :: string
  BaseQPS :: 'd
  URL :: string
  LoadFactors :: "'d list"
  FileNamePrefix :: string

record 'd Percentile =
  Percentile :: 'd
  Value :: 'd

record 'd HTTPRunnerResults =
  Count :: int
  Percentiles :: "'d Percentile list"
  ActualQPS :: 'd
  StartTime :: Time

record 'd GeneratorResults =
  Result :: "'d HTTPRunnerResults list"
  ErrorsPercentage :: "int \<Rightarrow> 'd"

record 'f TestCase =
  metricValue :: 'f
  metricName :: string
  testName :: string

definition CreatePerfTestCase :: "'f \<Rightarrow> string \<Rightarrow> string \<Rightarrow> 'f TestCase" where
  "CreatePerfTestCase v name tname = \<lparr> metricValue = v, metricName = name, testName = tname \<rparr>"

subsection \<open>The environment of one tier\<close>

text \<open>
  What the cluster and the libraries answer during one call of \<open>scaleRevisionByLoad\<close>:
  an error message (\<open>Inl\<close>, or \<open>Some\<close>) or the value the harness goes on with.
  \<open>notifications\<close> are the calls of the handler that the informer makes, in arrival
  order, before the harness takes the mutex to read the log.
\<close>

record 'd tier_env =
  Setup :: "string + unit"
  ObjectNameForTest :: string
  CreateRunLatestServiceReady :: "string + string"
  GetIngressEndpoint :: "string + string"
  WaitForEndpointState :: "string option"
  notifications :: "notification list"
  RunLoadTest :: "'d GeneratorOptions \<Rightarrow> string + 'd GeneratorResults"

text \<open>
  A tier ends in one of three ways: it returns its records; \<open>t.Fatalf\<close> fails the
  sub-test and ends its goroutine (the deferred calls run); or a run-time panic, which
  ends the test process.
\<close>

datatype abort = Fatalf string | Panic string

subsection \<open>One tier\<close>

text \<open>Reading \<open>resp.Result[0]\<close>: an index out of range panics.\<close>

definition Result0 :: "'d GeneratorResults \<Rightarrow> abort + 'd HTTPRunnerResults" where
  "Result0 resp =
     (case Result resp of
        [] \<Rightarrow> Inl (Panic ''runtime error: index out of range [0] with length 0'')
      | r # _ \<Rightarrow> Inr r)"

text \<open>The loop over the scale events (lines 184 to 187).\<close>

definition scale_case :: "('d, 'f) fpu \<Rightarrow> string \<Rightarrow> Time \<Rightarrow> scaleEvent \<Rightarrow> 'f TestCase" where
  "scale_case F tName start ev =
     CreatePerfTestCase
       (float32_of_int F (quo (Sub (timestamp ev) start) Second))
       (''scale-from-'' @ fmt_0d 2 (oldScale ev) @ ''-to-'' @ fmt_0d 2 (newScale ev) @ ''(seconds)'')
       tName"

fun scale_loop ::
  "('d, 'f) fpu \<Rightarrow> string \<Rightarrow> Time \<Rightarrow> scaleEvent list \<Rightarrow> 'f TestCase list \<Rightarrow> 'f TestCase list" where
  "scale_loop F tName start [] tc = tc"
| "scale_loop F tName start (ev # evs) tc =
     scale_loop F tName start evs (tc @ [scale_case F tName start ev])"

text \<open>The loop over the latency percentiles (lines 189 to 193).\<close>

definition percentile_case :: "('d, 'f) fpu \<Rightarrow> string \<Rightarrow> 'd Percentile \<Rightarrow> 'f TestCase" where
  "percentile_case F tName p =
     (let val = float32_mul F (float32_of_float64 F (Value p)) (float32_of_int F 1000);
          name = ''p'' @ fmt_d (int_of_float64 F (Percentile p)) @ ''(ms)''
      in CreatePerfTestCase val name tName)"

fun percentile_loop ::
  "('d, 'f) fpu \<Rightarrow> string \<Rightarrow> 'd Percentile list \<Rightarrow> 'f TestCase list \<Rightarrow> 'f TestCase list" where
  "percentile_loop F tName [] tc = tc"
| "percentile_loop F tName (p # ps) tc =
     percentile_loop F tName ps (tc @ [percentile_case F tName p])"

text \<open>
  Lines 175 to 195: the records of the tier, from the response of the load generator and
  the slice of scale events at address \<open>a\<close>. Each of the reads of \<open>resp.Result[0]\<close>
  panics on an empty result; the first one is on line 177.
\<close>

definition report ::
  "('d, 'f) fpu \<Rightarrow> string \<Rightarrow> int \<Rightarrow> 'd GeneratorResults \<Rightarrow> scaleEvent list
     \<Rightarrow> abort + 'f TestCase list" where
  "report F tName numClients resp scaleEvents =
     (case Result0 resp of
        Inl p \<Rightarrow> Inl p
      | Inr r0 \<Rightarrow>
          (let tc = [];
               tc = tc @ [CreatePerfTestCase (float32_of_int F (Count r0)) ''requestCount'' tName];
               tc = tc @ [CreatePerfTestCase (float32_of_int F (int64 (qpsPerClient * numClients)))
                            ''requestedQPS'' tName];
               tc = tc @ [CreatePerfTestCase (float32_of_float64 F (ActualQPS r0)) ''actualQPS'' tName];
               tc = tc @ [CreatePerfTestCase (float32_of_float64 F (ErrorsPercentage resp 0))
                            ''errorsPercentage'' tName];
               tc = scale_loop F tName (StartTime r0) scaleEvents tc;
               tc = percentile_loop F tName (Percentiles r0) tc
           in Inr tc))"

text \<open>Lines 153 to 162.\<close>

definition make_opts :: "('d, 'f) fpu \<Rightarrow> string \<Rightarrow> int \<Rightarrow> string \<Rightarrow> string \<Rightarrow> 'd GeneratorOptions" where
  "make_opts F tName numClients domain endpoint =
     \<lparr> Duration = iterationDuration,
       NumThreads = numClients,
       NumConnections = numClients,
       Domain = domain,
       BaseQPS = float64_mul F (float64_of_int F qpsPerClient) (float64_of_int F numClients),
       URL = ''http://'' @ endpoint @ ''/?timeout='' @ fmt_d processingTimeMillis,
       LoadFactors = [float64_of_int F 1],
       FileNamePrefix = Replace_slash tName \<rparr>"

text \<open>
  Lines 125 to 195, entered once the endpoint serves: the watcher is started, the load
  runs, the stop channel is closed and the records are built. The handler runs on the
  informer's goroutine while the load runs; its calls are placed before the answer of
  the load generator. The result of \<open>StartInformers\<close>, which the source discards, the
  log lines, \<open>resp.SaveJSON()\<close> and the handler registered for an interrupt have no
  part in the records and are left out.
\<close>

definition measure_tier ::
  "('d, 'f) fpu \<Rightarrow> 'd tier_env \<Rightarrow> string \<Rightarrow> int \<Rightarrow> string \<Rightarrow> string \<Rightarrow> string \<Rightarrow> world
     \<Rightarrow> (abort + 'f TestCase list) \<times> world" where
  "measure_tier F env tName numClients service domain endpoint w =
     (let (scaleEvents, w) = make_slice w;
          (stopCh, w) = make_chan w;
          w = StartInformers stopCh scaleEvents w;
          opts = make_opts F tName numClients domain endpoint;
          w = deliver service scaleEvents (notifications env) w
      in case RunLoadTest env opts of
           Inl err \<Rightarrow> (Inl (Fatalf (''Generating traffic via fortio failed: '' @ err)), w)
         | Inr resp \<Rightarrow>
             (let w = close_chan stopCh w
              in (report F tName numClients resp (slices w ! scaleEvents), w)))"

text \<open>
  Lines 90 to 123: the part of the tier that runs under the deferred \<open>TearDown\<close>.
\<close>

definition serve_tier ::
  "('d, 'f) fpu \<Rightarrow> 'd tier_env \<Rightarrow> string \<Rightarrow> int \<Rightarrow> string \<Rightarrow> world
     \<Rightarrow> (abort + 'f TestCase list) \<times> world" where
  "serve_tier F env tName numClients service w =
     (case CreateRunLatestServiceReady env of
        Inl err \<Rightarrow> (Inl (Fatalf (''Failed to create Service: '' @ err)), w)
      | Inr domain \<Rightarrow>
          (case GetIngressEndpoint env of
             Inl err \<Rightarrow> (Inl (Fatalf (''Cannot get service endpoint: '' @ err)), w)
           | Inr endpoint \<Rightarrow>
               (case WaitForEndpointState env of
                  Some err \<Rightarrow>
                    (Inl (Fatalf (''The endpoint at domain '' @ domain
                                   @ '' didn't serve the expected response: '' @ err)), w)
                | None \<Rightarrow> measure_tier F env tName numClients service domain endpoint w)))"

text \<open>
  \<open>scaleRevisionByLoad\<close>; \<open>tName\<close> is \<open>t.Name()\<close>. The deferred \<open>TearDown\<close> runs on
  every exit after line 87: on return, on \<open>t.Fatalf\<close> and on a panic.
\<close>

definition scaleRevisionByLoad ::
  "('d, 'f) fpu \<Rightarrow> 'd tier_env \<Rightarrow> string \<Rightarrow> int \<Rightarrow> world
     \<Rightarrow> (abort + 'f TestCase list) \<times> world" where
  "scaleRevisionByLoad F env tName numClients w =
     (case Setup env of
        Inl err \<Rightarrow> (Inl (Fatalf (''Cannot initialize performance client: '' @ err)), w)
      | Inr perfClients \<Rightarrow>
          (let service = ObjectNameForTest env;
               (res, w) = serve_tier F env tName numClients service w
           in (res, TearDown service w)))"

subsection \<open>The sweep over the tiers\<close>

text \<open>
  \<open>suite\<close> is the state of \<open>TestScaleRevisionByLoad\<close>: the slice \<open>tc\<close> and the names
  of the sub-tests that failed. \<open>t.Run\<close> starts the sub-test
  \<open>TestScaleRevisionByLoad/clients-NNN\<close> and waits for it. When the sub-test calls
  \<open>t.Fatalf\<close>, the call of \<open>scaleRevisionByLoad\<close> does not return, so nothing is
  appended to \<open>tc\<close>; \<open>t.Run\<close> returns and the loop goes on. A panic ends the process.
  \<open>envs i\<close> is the environment of the \<open>i\<close>-th iteration.
\<close>

record 'f suite =
  tc :: "'f TestCase list"
  failed :: "string list"

definition subtest_name :: "string \<Rightarrow> int \<Rightarrow> string" where
  "subtest_name tName numClients = tName @ ''/'' @ ''clients-'' @ fmt_0d 3 numClients"

fun tiers_loop ::
  "('d, 'f) fpu \<Rightarrow> (nat \<Rightarrow> 'd tier_env) \<Rightarrow> string \<Rightarrow> nat \<Rightarrow> int list \<Rightarrow> 'f suite \<Rightarrow> world
     \<Rightarrow> (string + 'f suite) \<times> world" where
  "tiers_loop F envs tName i [] s w = (Inr s, w)"
| "tiers_loop F envs tName i (numClients # rest) s w =
     (let sub = subtest_name tName numClients;
          w = w\<lparr> ran := ran w @ [sub] \<rparr>
      in case scaleRevisionByLoad F (envs i) sub numClients w of
           (Inl (Panic msg), w) \<Rightarrow> (Inl msg, w)
         | (Inl (Fatalf msg), w) \<Rightarrow>
             tiers_loop F envs tName (Suc i) rest (s\<lparr> failed := failed s @ [sub] \<rparr>) w
         | (Inr recs, w) \<Rightarrow>
             tiers_loop F envs tName (Suc i) rest (s\<lparr> tc := tc s @ recs \<rparr>) w)"

text \<open>
  \<open>TestScaleRevisionByLoad\<close>: \<open>Inl\<close> is a panic; otherwise the records handed to
  \<open>testgrid.CreateXMLOutput\<close> and the sub-tests that failed.
\<close>

definition TestScaleRevisionByLoad ::
  "('d, 'f) fpu \<Rightarrow> (nat \<Rightarrow> 'd tier_env) \<Rightarrow> world \<Rightarrow> (string + 'f suite) \<times> world" where
  "TestScaleRevisionByLoad F envs w =
     tiers_loop F envs ''TestScaleRevisionByLoad'' 0 concurrentClients
       \<lparr> tc = [], failed = [] \<rparr> w"

section \<open>What the specification expects\<close>

text \<open>
  The events the spec expects from a watcher that sees the ready count \<open>c\<close> and then
  the counts \<open>cs\<close>: one event per change, none for a repeated count, each with the
  two counts that produced it.
\<close>

fun changes :: "int \<Rightarrow> (int \<times> Time) list \<Rightarrow> scaleEvent list" where
  "changes c [] = []"
| "changes c ((c', t) # rest) =
     (if c' \<noteq> c then [\<lparr> oldScale = c, newScale = c', timestamp = t \<rparr>] else [])
     @ changes c' rest"

text \<open>The events that a list of handler calls leaves in the log of \<open>service\<close>.\<close>

definition recorded :: "string \<Rightarrow> notification list \<Rightarrow> scaleEvent list" where
  "recorded service ns =
     map event_of (filter (\<lambda>n. Contains (GetName (newObj n)) service \<and> changed n) ns)"

text \<open>The outcome of a tier that starts on an empty store.\<close>

definition tier_result ::
  "('d, 'f) fpu \<Rightarrow> 'd tier_env \<Rightarrow> string \<Rightarrow> int \<Rightarrow> abort + 'f TestCase list" where
  "tier_result F env tName numClients = fst (scaleRevisionByLoad F env tName numClients empty_world)"

text \<open>
  The records of a sweep in which every tier is run: a tier that returns contributes its
  records, a tier that fails contributes none.
\<close>

fun sweep_records ::
  "('d, 'f) fpu \<Rightarrow> (nat \<Rightarrow> 'd tier_env) \<Rightarrow> string \<Rightarrow> nat \<Rightarrow> int list \<Rightarrow> 'f TestCase list" where
  "sweep_records F envs tName i [] = []"
| "sweep_records F envs tName i (numClients # rest) =
     (case tier_result F (envs i) (subtest_name tName numClients) numClients of
        Inr recs \<Rightarrow> recs
      | Inl _ \<Rightarrow> [])
     @ sweep_records F envs tName (Suc i) rest"

text \<open>The sub-tests of a sweep that fail: the tiers that do not return.\<close>

fun sweep_failed ::
  "('d, 'f) fpu \<Rightarrow> (nat \<Rightarrow> 'd tier_env) \<Rightarrow> string \<Rightarrow> nat \<Rightarrow> int list \<Rightarrow> string list" where
  "sweep_failed F envs tName i [] = []"
| "sweep_failed F envs tName i (numClients # rest) =
     (case tier_result F (envs i) (subtest_name tName numClients) numClients of
        Inr recs \<Rightarrow> []
      | Inl _ \<Rightarrow> [subtest_name tName numClients])
     @ sweep_failed F envs tName (Suc i) rest"

text \<open>No tier of the sweep ends in a run-time panic.\<close>

definition tier_panics :: "('d, 'f) fpu \<Rightarrow> 'd tier_env \<Rightarrow> string \<Rightarrow> int \<Rightarrow> bool" where
  "tier_panics F env tName numClients =
     (case tier_result F env tName numClients of Inl (Panic _) \<Rightarrow> True | _ \<Rightarrow> False)"

fun no_panic ::
  "('d, 'f) fpu \<Rightarrow> (nat \<Rightarrow> 'd tier_env) \<Rightarrow> string \<Rightarrow> nat \<Rightarrow> int list \<Rightarrow> bool" where
  "no_panic F envs tName i [] = True"
| "no_panic F envs tName i (numClients # rest) =
     (\<not> tier_panics F (envs i) (subtest_name tName numClients) numClients
      \<and> no_panic F envs tName (Suc i) rest)"

text \<open>
  A store in which every informer has its stop channel and its slice allocated, and no
  two informers share a stop channel or a slice.
\<close>

definition store_ok :: "world \<Rightarrow> bool" where
  "store_ok w =
     (list_all (\<lambda>(c, a). c < length (chans w) \<and> a < length (slices w)) (informers w)
      \<and> distinct (map fst (informers w)) \<and> distinct (map snd (informers w)))"

text \<open>The four fixed records of a tier (lines 177 to 180).\<close>

definition fixed_cases ::
  "('d, 'f) fpu \<Rightarrow> string \<Rightarrow> int \<Rightarrow> 'd GeneratorResults \<Rightarrow> 'd HTTPRunnerResults \<Rightarrow> 'f TestCase list" where
  "fixed_cases F tName numClients resp r0 =
     [CreatePerfTestCase (float32_of_int F (Count r0)) ''requestCount'' tName,
      CreatePerfTestCase (float32_of_int F (int64 (qpsPerClient * numClients))) ''requestedQPS'' tName,
      CreatePerfTestCase (float32_of_float64 F (ActualQPS r0)) ''actualQPS'' tName,
      CreatePerfTestCase (float32_of_float64 F (ErrorsPercentage resp 0)) ''errorsPercentage'' tName]"

text \<open>A tier gets as far as its load run, and the load generator answers \<open>out\<close>.\<close>

definition reaches_load ::
  "('d, 'f) fpu \<Rightarrow> 'd tier_env \<Rightarrow> string \<Rightarrow> int \<Rightarrow> (string + 'd GeneratorResults) \<Rightarrow> bool" where
  "reaches_load F env tName numClients out =
     (case (Setup env, CreateRunLatestServiceReady env, GetIngressEndpoint env,
            WaitForEndpointState env) of
        (Inr _, Inr domain, Inr endpoint, None) \<Rightarrow>
          RunLoadTest env (make_opts F tName numClients domain endpoint) = out
      | _ \<Rightarrow> False)"

text \<open>
  The store once the watcher of a tier is started and has handled its notifications: a
  new slice with the recorded events, a new open stop channel, and the informer.
\<close>

definition started :: "string \<Rightarrow> notification list \<Rightarrow> world \<Rightarrow> world" where
  "started service ns w =
     w\<lparr> slices := slices w @ [recorded service ns], chans := chans w @ [False],
        informers := informers w @ [(length (chans w), length (slices w))] \<rparr>"

section \<open>Example runs\<close>

text \<open>
  A load result with two percentiles, and a tier in which the endpoints
  \<open>svc-x\<close> of the service \<open>svc\<close> go from one ready address to two, are reported
  again with two, and go to three. The load starts at second 10; the notifications
  carry the seconds 15, 16 and 7.5, the last one an instant before the start of the load.
\<close>

definition resp_ok :: "rat GeneratorResults" where
  "resp_ok =
     \<lparr> Result = [\<lparr> Count = 600,
                   Percentiles = [\<lparr> Percentile = 50, Value = 1 / 8 \<rparr>,
                                  \<lparr> Percentile = 99, Value = 1 / 2 \<rparr>],
                   ActualQPS = 100, StartTime = 10000000000 \<rparr>],
       ErrorsPercentage = (\<lambda>_. 0) \<rparr>"

definition svc_notifications :: "notification list" where
  "svc_notifications =
     observations ''svc-x'' 1 [(2, 15000000000), (2, 16000000000), (3, 7500000000)]"

definition env_ok :: "rat tier_env" where
  "env_ok =
     \<lparr> Setup = Inr (), ObjectNameForTest = ''svc'',
       CreateRunLatestServiceReady = Inr ''svc.example.com'',
       GetIngressEndpoint = Inr ''10.0.0.1'', WaitForEndpointState = None,
       notifications = svc_notifications,
       RunLoadTest = (\<lambda>_. Inr resp_ok) \<rparr>"

text \<open>The same tier when the load generator fails.\<close>

definition env_load_fails :: "rat tier_env" where
  "env_load_fails = env_ok\<lparr> RunLoadTest := (\<lambda>_. Inl ''connection refused'') \<rparr>"


text \<open>The same tier when the load generator returns no result entry.\<close>

definition resp_empty :: "rat GeneratorResults" where
  "resp_empty = \<lparr> Result = [], ErrorsPercentage = (\<lambda>_. 0) \<rparr>"

definition env_empty_result :: "rat tier_env" where
  "env_empty_result = env_ok\<lparr> RunLoadTest := (\<lambda>_. Inr resp_empty) \<rparr>"

text \<open>The same tier when the load result lists the 99th percentile before the 50th.\<close>

definition resp_unsorted :: "rat GeneratorResults" where
  "resp_unsorted =
     \<lparr> Result = [\<lparr> Count = 600,
                   Percentiles = [\<lparr> Percentile = 99, Value = 1 / 2 \<rparr>,
                                  \<lparr> Percentile = 50, Value = 1 / 8 \<rparr>],
                   ActualQPS = 100, StartTime = 10000000000 \<rparr>],
       ErrorsPercentage = (\<lambda>_. 0) \<rparr>"

definition env_unsorted :: "rat tier_env" where
  "env_unsorted = env_ok\<lparr> notifications := [], RunLoadTest := (\<lambda>_. Inr resp_unsorted) \<rparr>"

text \<open>A tier whose setup fails, and a quiet tier with one percentile.\<close>

definition env_setup_fails :: "rat tier_env" where
  "env_setup_fails = env_ok\<lparr> Setup := Inl ''no cluster'' \<rparr>"

definition resp_quiet :: "rat GeneratorResults" where
  "resp_quiet =
     \<lparr> Result = [\<lparr> Count = 1200, Percentiles = [\<lparr> Percentile = 50, Value = 1 / 8 \<rparr>],
                   ActualQPS = 200, StartTime = 10000000000 \<rparr>],
       ErrorsPercentage = (\<lambda>_. 0) \<rparr>"

definition env_quiet :: "rat tier_env" where
  "env_quiet = env_ok\<lparr> notifications := [], RunLoadTest := (\<lambda>_. Inr resp_quiet) \<rparr>"

text \<open>A sweep in which only the second tier (20 clients) gets through its setup.\<close>

definition sweep_envs :: "nat \<Rightarrow> rat tier_env" where
  "sweep_envs i = (if i = 1 then env_quiet else env_setup_fails)"

section \<open>Properties of the loops and of one tier\<close>

lemma scale_loop_eq: "scale_loop F tName start evs acc = acc @ map (scale_case F tName start) evs"
  by (induction evs arbitrary: acc) simp_all

lemma percentile_loop_eq: "percentile_loop F tName ps acc = acc @ map (percentile_case F tName) ps"
  by (induction ps arbitrary: acc) simp_all

lemma UpdateFunc_eq:
  "UpdateFunc service a n w =
     (if Contains (GetName (newObj n)) service \<and> changed n then append_event a (event_of n) w else w)"
  by (simp add: UpdateFunc_def changed_def event_of_def Let_def)

lemma deliver_eq:
  "deliver service a ns w = w\<lparr> slices := (slices w)[a := slices w ! a @ recorded service ns] \<rparr>"
proof (induction ns arbitrary: w)
  case Nil
  show ?case by (simp add: recorded_def)
next
  case (Cons n ns)
  show ?case
  proof (cases "a < length (slices w)")
    case True
    then show ?thesis
      by (simp add: Cons.IH UpdateFunc_eq append_event_def recorded_def)
  next
    case False
    then have "length (slices w) \<le> a" by simp
    then show ?thesis
      by (simp add: Cons.IH UpdateFunc_eq append_event_def recorded_def list_update_beyond)
  qed
qed

lemma recorded_observations:
  "Contains name service \<Longrightarrow> recorded service (observations name c cs) = changes c cs"
  by (induction name c cs rule: observations.induct)
     (auto simp: recorded_def changed_def event_of_def ReadyAddressCount_def)

lemma report_eq:
  "report F tName numClients resp evs =
     (case Result resp of
        [] \<Rightarrow> Inl (Panic ''runtime error: index out of range [0] with length 0'')
      | r0 # _ \<Rightarrow> Inr (fixed_cases F tName numClients resp r0
                       @ map (scale_case F tName (StartTime r0)) evs
                       @ map (percentile_case F tName) (Percentiles r0)))"
  by (simp add: report_def Result0_def fixed_cases_def scale_loop_eq percentile_loop_eq Let_def
           split: list.splits)

lemma measure_tier_eq:
  "measure_tier F env tName numClients service domain endpoint w =
     (case RunLoadTest env (make_opts F tName numClients domain endpoint) of
        Inl err \<Rightarrow> (Inl (Fatalf (''Generating traffic via fortio failed: '' @ err)),
                    started service (notifications env) w)
      | Inr resp \<Rightarrow> (report F tName numClients resp (recorded service (notifications env)),
                     (started service (notifications env) w)\<lparr> chans := chans w @ [True] \<rparr>))"
  by (simp add: measure_tier_def make_slice_def make_chan_def StartInformers_def deliver_eq
        close_chan_def started_def Let_def split: sum.splits)

lemma scaleRevisionByLoad_load:
  assumes "reaches_load F env tName numClients out"
  shows "scaleRevisionByLoad F env tName numClients w =
     (case out of
        Inl err \<Rightarrow> (Inl (Fatalf (''Generating traffic via fortio failed: '' @ err)),
                    TearDown (ObjectNameForTest env)
                      (started (ObjectNameForTest env) (notifications env) w))
      | Inr resp \<Rightarrow>
          (report F tName numClients resp (recorded (ObjectNameForTest env) (notifications env)),
           TearDown (ObjectNameForTest env)
             ((started (ObjectNameForTest env) (notifications env) w)\<lparr> chans := chans w @ [True] \<rparr>)))"
  using assms
  by (auto simp: reaches_load_def scaleRevisionByLoad_def serve_tier_def measure_tier_eq Let_def
           split: sum.splits option.splits)

lemma tier_independent:
  "fst (scaleRevisionByLoad F env tName numClients w) = tier_result F env tName numClients"
  by (simp add: tier_result_def scaleRevisionByLoad_def serve_tier_def measure_tier_eq Let_def
           split: sum.splits option.splits prod.splits)

lemma length_fixed_cases: "length (fixed_cases F tName numClients resp r0) = 4"
  by (simp add: fixed_cases_def)

lemma tier_store:
  "snd (scaleRevisionByLoad F env tName numClients w) = w
   \<or> snd (scaleRevisionByLoad F env tName numClients w) = TearDown (ObjectNameForTest env) w
   \<or> snd (scaleRevisionByLoad F env tName numClients w) =
       TearDown (ObjectNameForTest env) (started (ObjectNameForTest env) (notifications env) w)
   \<or> snd (scaleRevisionByLoad F env tName numClients w) =
       TearDown (ObjectNameForTest env)
         ((started (ObjectNameForTest env) (notifications env) w)\<lparr> chans := chans w @ [True] \<rparr>)"
  by (simp add: scaleRevisionByLoad_def serve_tier_def measure_tier_eq Let_def
           split: sum.splits option.splits prod.splits)

lemma ran_tier: "ran (snd (scaleRevisionByLoad F env tName numClients w)) = ran w"
  using tier_store [of F env tName numClients w]
  by (auto simp: TearDown_def started_def)

lemma store_ok_ran: "store_ok (w\<lparr> ran := r \<rparr>) = store_ok w"
  by (simp add: store_ok_def)

lemma store_ok_TearDown: "store_ok (TearDown service w) = store_ok w"
  by (simp add: store_ok_def TearDown_def)

lemma store_ok_started:
  assumes "store_ok w"
  shows "store_ok (started service ns w)"
    and "store_ok ((started service ns w)\<lparr> chans := chans w @ [b] \<rparr>)"
  using assms
  by (auto simp: store_ok_def started_def list_all_iff)

lemma store_ok_tier:
  "store_ok w \<Longrightarrow> store_ok (snd (scaleRevisionByLoad F env tName numClients w))"
  using tier_store [of F env tName numClients w]
  by (auto simp: store_ok_TearDown store_ok_started)

lemma store_ok_loop:
  "store_ok w \<Longrightarrow> store_ok (snd (tiers_loop F envs tName i tiers s w))"
proof (induction tiers arbitrary: i s w)
  case Nil
  then show ?case by simp
next
  case (Cons n tiers)
  let ?w0 = "w\<lparr> ran := ran w @ [subtest_name tName n] \<rparr>"
  obtain r w1 where t: "scaleRevisionByLoad F (envs i) (subtest_name tName n) n ?w0 = (r, w1)"
    by (cases "scaleRevisionByLoad F (envs i) (subtest_name tName n) n ?w0")
  have "store_ok ?w0" using Cons.prems by (simp add: store_ok_ran)
  from store_ok_tier [OF this, of F "envs i" "subtest_name tName n" n]
  have ok: "store_ok w1" by (simp add: t)
  show ?case
  proof (cases r)
    case (Inl e)
    then show ?thesis
      using t ok Cons.IH by (cases e) (simp_all add: Let_def)
  next
    case (Inr recs)
    then show ?thesis
      using t ok Cons.IH by (simp add: Let_def)
  qed
qed

lemma store_ok_empty: "store_ok empty_world"
  by (simp add: store_ok_def empty_world_def)

text \<open>
  In a sweep that starts on the empty store no two informers share a slice or a stop
  channel: every tier that starts a watcher allocates both.
\<close>

lemma sweep_informers_distinct:
  "distinct (map snd (informers (snd (tiers_loop F envs tName i tiers s empty_world))))
   \<and> distinct (map fst (informers (snd (tiers_loop F envs tName i tiers s empty_world))))"
proof -
  have "store_ok (snd (tiers_loop F envs tName i tiers s empty_world))"
    by (rule store_ok_loop) (rule store_ok_empty)
  then show ?thesis
    by (simp add: store_ok_def)
qed

section \<open>The example runs, evaluated\<close>

lemma reaches_load_ok: "reaches_load exact_fpu env_ok tName numClients (Inr resp_ok)"
  by (simp add: reaches_load_def env_ok_def)

lemma reaches_load_empty:
  "reaches_load exact_fpu env_empty_result tName numClients (Inr resp_empty)"
  by (simp add: reaches_load_def env_empty_result_def env_ok_def)

lemma reaches_load_unsorted:
  "reaches_load exact_fpu env_unsorted tName numClients (Inr resp_unsorted)"
  by (simp add: reaches_load_def env_unsorted_def env_ok_def)

lemma env_ok_fields:
  "ObjectNameForTest env_ok = ''svc''" "notifications env_ok = svc_notifications"
  by (simp_all add: env_ok_def)

lemma env_unsorted_fields:
  "ObjectNameForTest env_unsorted = ''svc''" "notifications env_unsorted = []"
  by (simp_all add: env_unsorted_def env_ok_def)

lemma fmt_examples:
  "fmt_0d 2 1 = ''01''" "fmt_0d 2 2 = ''02''" "fmt_0d 2 3 = ''03''"
  "fmt_d 50 = ''50''" "fmt_d 99 = ''99''"
  by (simp_all add: fmt_0d_def fmt_d_def zero_pad_def fmt_nat.simps digit_def)

lemma svc_recorded:
  "recorded ''svc'' svc_notifications =
     [\<lparr> oldScale = 1, newScale = 2, timestamp = 15000000000 \<rparr>,
      \<lparr> oldScale = 2, newScale = 3, timestamp = 7500000000 \<rparr>]"
  by (simp add: recorded_def svc_notifications_def changed_def event_of_def ReadyAddressCount_def
        Contains_def sublist_code)

lemma resp_ok_Result: "Result resp_ok = hd (Result resp_ok) # []"
  by (simp add: resp_ok_def)

lemma eval_ok:
  "scaleRevisionByLoad exact_fpu env_ok ''TestScaleRevisionByLoad/clients-010'' 10 empty_world =
     (Inr [\<lparr> metricValue = 600, metricName = ''requestCount'',
              testName = ''TestScaleRevisionByLoad/clients-010'' \<rparr>,
           \<lparr> metricValue = 100, metricName = ''requestedQPS'',
              testName = ''TestScaleRevisionByLoad/clients-010'' \<rparr>,
           \<lparr> metricValue = 100, metricName = ''actualQPS'',
              testName = ''TestScaleRevisionByLoad/clients-010'' \<rparr>,
           \<lparr> metricValue = 0, metricName = ''errorsPercentage'',
              testName = ''TestScaleRevisionByLoad/clients-010'' \<rparr>,
           \<lparr> metricValue = 5, metricName = ''scale-from-01-to-02(seconds)'',
              testName = ''TestScaleRevisionByLoad/clients-010'' \<rparr>,
           \<lparr> metricValue = - 2, metricName = ''scale-from-02-to-03(seconds)'',
              testName = ''TestScaleRevisionByLoad/clients-010'' \<rparr>,
           \<lparr> metricValue = 125, metricName = ''p50(ms)'',
              testName = ''TestScaleRevisionByLoad/clients-010'' \<rparr>,
           \<lparr> metricValue = 500, metricName = ''p99(ms)'',
              testName = ''TestScaleRevisionByLoad/clients-010'' \<rparr>],
      \<lparr> slices = [[\<lparr> oldScale = 1, newScale = 2, timestamp = 15000000000 \<rparr>,
                    \<lparr> oldScale = 2, newScale = 3, timestamp = 7500000000 \<rparr>]],
        chans = [True], informers = [(0, 0)], tornDown = [''svc''], ran = [] \<rparr>)"
  unfolding scaleRevisionByLoad_load [OF reaches_load_ok]
  by (simp add: report_eq started_def TearDown_def
        empty_world_def svc_recorded env_ok_fields resp_ok_def fixed_cases_def scale_case_def
        percentile_case_def CreatePerfTestCase_def exact_fpu_def int64_def qpsPerClient_def
        Sub_def maxDuration_def minDuration_def quo_def Second_def fmt_examples Let_def)


lemma eval_setup_fails:
  "scaleRevisionByLoad F env_setup_fails tName numClients w =
     (Inl (Fatalf ''Cannot initialize performance client: no cluster''), w)"
  by (simp add: scaleRevisionByLoad_def env_setup_fails_def)

lemma reaches_load_quiet: "reaches_load exact_fpu env_quiet tName numClients (Inr resp_quiet)"
  by (simp add: reaches_load_def env_quiet_def env_ok_def)

lemma env_quiet_fields:
  "ObjectNameForTest env_quiet = ''svc''" "notifications env_quiet = []"
  by (simp_all add: env_quiet_def env_ok_def)

lemma eval_quiet:
  "scaleRevisionByLoad exact_fpu env_quiet tName 20 w =
     (Inr [\<lparr> metricValue = 1200, metricName = ''requestCount'', testName = tName \<rparr>,
           \<lparr> metricValue = 200, metricName = ''requestedQPS'', testName = tName \<rparr>,
           \<lparr> metricValue = 200, metricName = ''actualQPS'', testName = tName \<rparr>,
           \<lparr> metricValue = 0, metricName = ''errorsPercentage'', testName = tName \<rparr>,
           \<lparr> metricValue = 125, metricName = ''p50(ms)'', testName = tName \<rparr>],
      w\<lparr> slices := slices w @ [[]], chans := chans w @ [True],
         informers := informers w @ [(length (chans w), length (slices w))],
         tornDown := tornDown w @ [''svc''] \<rparr>)"
  unfolding scaleRevisionByLoad_load [OF reaches_load_quiet]
  by (simp add: report_eq env_quiet_fields resp_quiet_def recorded_def fixed_cases_def
        percentile_case_def CreatePerfTestCase_def exact_fpu_def int64_def qpsPerClient_def
        fmt_examples started_def TearDown_def Let_def)

lemma subtest_names:
  "subtest_name ''TestScaleRevisionByLoad'' 10 = ''TestScaleRevisionByLoad/clients-010''"
  "subtest_name ''TestScaleRevisionByLoad'' 20 = ''TestScaleRevisionByLoad/clients-020''"
  "subtest_name ''TestScaleRevisionByLoad'' 40 = ''TestScaleRevisionByLoad/clients-040''"
  "subtest_name ''TestScaleRevisionByLoad'' 80 = ''TestScaleRevisionByLoad/clients-080''"
  "subtest_name ''TestScaleRevisionByLoad'' 160 = ''TestScaleRevisionByLoad/clients-160''"
  "subtest_name ''TestScaleRevisionByLoad'' 320 = ''TestScaleRevisionByLoad/clients-320''"
  by (simp_all add: subtest_name_def fmt_0d_def zero_pad_def fmt_nat.simps digit_def)

lemma sweep_envs_at:
  "sweep_envs 0 = env_setup_fails" "sweep_envs (Suc 0) = env_quiet"
  "sweep_envs (Suc (Suc k)) = env_setup_fails"
  by (simp_all add: sweep_envs_def)

section \<open>The watcher\<close>

text \<open>
  Claim C3. A watcher whose slice is allocated at address \<open>a\<close> handles the
  notifications of one matching resource, whose ready count is first \<open>c\<close> and then
  the counts \<open>cs\<close>. It appends exactly one event for each count that differs from the
  last observed one and none for a repeated count, and the old and new scale of each
  event are the two counts that produced it: the log grows by \<open>changes c cs\<close>.
\<close>

theorem watcher_one_event_per_change:
  assumes "a < length (slices w)" and "Contains name service"
  shows "slices (deliver service a (observations name c cs) w) ! a = slices w ! a @ changes c cs"
  using assms by (simp add: deliver_eq recorded_observations)

theorem watcher_one_event_per_change_witness:
  "0 < length (slices (snd (make_slice empty_world))) \<and> Contains ''svc-x'' ''svc'' \<and>
   slices (deliver ''svc'' 0
             (observations ''svc-x'' 1 [(2, 15000000000), (2, 16000000000), (3, 7500000000)])
             (snd (make_slice empty_world))) ! 0 =
     [\<lparr> oldScale = 1, newScale = 2, timestamp = 15000000000 \<rparr>,
      \<lparr> oldScale = 2, newScale = 3, timestamp = 7500000000 \<rparr>]"
  using watcher_one_event_per_change [of 0 "snd (make_slice empty_world)" "''svc-x''" "''svc''" 1
          "[(2, 15000000000), (2, 16000000000), (3, 7500000000)]"]
  by (simp add: make_slice_def empty_world_def Contains_def sublist_code)

section \<open>The records of one tier\<close>

text \<open>
  Claim C6, as amended. When a tier gets through its load run and the load result has a
  first entry \<open>r0\<close>, the tier returns its records in a fixed order: the four fixed
  metrics (request count, requested QPS, actual QPS, error percentage), then one record
  for each scale event of the tier's log, in the order of the log, then one record for
  each latency percentile of \<open>r0\<close>, in the order in which the load result lists them.
\<close>

theorem records_in_emission_order:
  assumes "reaches_load F env tName numClients (Inr resp)" and "Result resp = r0 # rs"
  shows "\<exists>recs w'. scaleRevisionByLoad F env tName numClients w = (Inr recs, w') \<and>
           recs = fixed_cases F tName numClients resp r0
                  @ map (scale_case F tName (StartTime r0)) (slices w' ! length (slices w))
                  @ map (percentile_case F tName) (Percentiles r0)"
  using assms(2)
  by (simp add: scaleRevisionByLoad_load [OF assms(1)] report_eq started_def TearDown_def)

theorem records_in_emission_order_witness:
  "reaches_load exact_fpu env_ok ''TestScaleRevisionByLoad/clients-010'' 10 (Inr resp_ok) \<and>
   map metricName (case fst (scaleRevisionByLoad exact_fpu env_ok
                               ''TestScaleRevisionByLoad/clients-010'' 10 empty_world) of
                     Inr recs \<Rightarrow> recs | Inl _ \<Rightarrow> []) =
     [''requestCount'', ''requestedQPS'', ''actualQPS'', ''errorsPercentage'',
      ''scale-from-01-to-02(seconds)'', ''scale-from-02-to-03(seconds)'', ''p50(ms)'', ''p99(ms)'']"
proof -
  from records_in_emission_order [OF reaches_load_ok resp_ok_Result,
          of "''TestScaleRevisionByLoad/clients-010''" 10 empty_world]
  have "\<exists>recs w'. scaleRevisionByLoad exact_fpu env_ok ''TestScaleRevisionByLoad/clients-010'' 10
                     empty_world = (Inr recs, w')"
    by blast
  then show ?thesis
    by (simp add: eval_ok reaches_load_ok)
qed

text \<open>
  The claim C6 as it is written asks for ascending percentile order. On a load result
  that lists the 99th percentile before the 50th, the record \<open>p99(ms)\<close> comes before
  the record \<open>p50(ms)\<close>.
\<close>

theorem percentile_order_counterexample:
  "fst (scaleRevisionByLoad exact_fpu env_unsorted ''TestScaleRevisionByLoad/clients-010'' 10
          empty_world) =
     Inr [\<lparr> metricValue = 600, metricName = ''requestCount'',
             testName = ''TestScaleRevisionByLoad/clients-010'' \<rparr>,
          \<lparr> metricValue = 100, metricName = ''requestedQPS'',
             testName = ''TestScaleRevisionByLoad/clients-010'' \<rparr>,
          \<lparr> metricValue = 100, metricName = ''actualQPS'',
             testName = ''TestScaleRevisionByLoad/clients-010'' \<rparr>,
          \<lparr> metricValue = 0, metricName = ''errorsPercentage'',
             testName = ''TestScaleRevisionByLoad/clients-010'' \<rparr>,
          \<lparr> metricValue = 500, metricName = ''p99(ms)'',
             testName = ''TestScaleRevisionByLoad/clients-010'' \<rparr>,
          \<lparr> metricValue = 125, metricName = ''p50(ms)'',
             testName = ''TestScaleRevisionByLoad/clients-010'' \<rparr>]"
  unfolding scaleRevisionByLoad_load [OF reaches_load_unsorted]
  by (simp add: report_eq env_unsorted_fields resp_unsorted_def recorded_def fixed_cases_def
        percentile_case_def CreatePerfTestCase_def exact_fpu_def int64_def qpsPerClient_def
        fmt_examples Let_def)

text \<open>
  Claim C7. When a tier gets through its load run and the load result has a first entry
  \<open>r0\<close>, the log of the tier holds every event that the handler recorded, and the
  records after the four fixed ones are one record for each event of the log, in order,
  none left out: its value is the float32 of the whole seconds (truncated towards zero)
  of the elapsed time \<open>timestamp - StartTime\<close>, a Duration, which may be negative and
  is saturated at the ends of the Duration range.
\<close>

theorem every_event_correlated:
  assumes "reaches_load F env tName numClients (Inr resp)" and "Result resp = r0 # rs"
  shows "\<exists>recs w'. scaleRevisionByLoad F env tName numClients w = (Inr recs, w') \<and>
           slices w' ! length (slices w) = recorded (ObjectNameForTest env) (notifications env) \<and>
           take (length (slices w' ! length (slices w))) (drop 4 recs) =
             map (\<lambda>ev. CreatePerfTestCase
                          (float32_of_int F
                             (quo (max minDuration (min maxDuration (timestamp ev - StartTime r0)))
                                  Second))
                          (''scale-from-'' @ fmt_0d 2 (oldScale ev) @ ''-to-''
                             @ fmt_0d 2 (newScale ev) @ ''(seconds)'')
                          tName)
                 (slices w' ! length (slices w))"
  using assms(2)
  by (simp add: scaleRevisionByLoad_load [OF assms(1)] report_eq started_def TearDown_def
        fixed_cases_def scale_case_def Sub_def minDuration_def maxDuration_def max_def min_def
        cong: map_cong)

theorem every_event_correlated_witness:
  "reaches_load exact_fpu env_ok ''TestScaleRevisionByLoad/clients-010'' 10 (Inr resp_ok) \<and>
   take 2 (drop 4 (case fst (scaleRevisionByLoad exact_fpu env_ok
                               ''TestScaleRevisionByLoad/clients-010'' 10 empty_world) of
                     Inr recs \<Rightarrow> recs | Inl _ \<Rightarrow> [])) =
     [\<lparr> metricValue = 5, metricName = ''scale-from-01-to-02(seconds)'',
        testName = ''TestScaleRevisionByLoad/clients-010'' \<rparr>,
      \<lparr> metricValue = - 2, metricName = ''scale-from-02-to-03(seconds)'',
        testName = ''TestScaleRevisionByLoad/clients-010'' \<rparr>]"
proof -
  from every_event_correlated [OF reaches_load_ok resp_ok_Result,
          of "''TestScaleRevisionByLoad/clients-010''" 10 empty_world]
  have "\<exists>recs w'. scaleRevisionByLoad exact_fpu env_ok ''TestScaleRevisionByLoad/clients-010'' 10
                     empty_world = (Inr recs, w')"
    by blast
  then show ?thesis
    by (simp add: eval_ok reaches_load_ok)
qed

text \<open>
  Claim C9. When a tier gets through its load run and the load result has a first entry
  \<open>r0\<close>, the records after the fixed ones and the scale events are exactly one record
  for each latency percentile of \<open>r0\<close>: its name is \<open>p\<close>, the percentile converted
  to an integer, and \<open>(ms)\<close>, and its value is the float32 product of the latency in
  seconds (converted to float32) and 1000.
\<close>

theorem one_record_per_percentile:
  assumes "reaches_load F env tName numClients (Inr resp)" and "Result resp = r0 # rs"
  shows "\<exists>recs w'. scaleRevisionByLoad F env tName numClients w = (Inr recs, w') \<and>
           drop (4 + length (slices w' ! length (slices w))) recs =
             map (\<lambda>p. \<lparr> metricValue = float32_mul F (float32_of_float64 F (Value p))
                                         (float32_of_int F 1000),
                          metricName = ''p'' @ fmt_d (int_of_float64 F (Percentile p)) @ ''(ms)'',
                          testName = tName \<rparr>)
                 (Percentiles r0)"
proof -
  have pc: "percentile_case F tName =
      (\<lambda>p. \<lparr> metricValue = float32_mul F (float32_of_float64 F (Value p)) (float32_of_int F 1000),
               metricName = ''p'' @ fmt_d (int_of_float64 F (Percentile p)) @ ''(ms)'',
               testName = tName \<rparr>)"
    by (rule ext) (simp add: percentile_case_def CreatePerfTestCase_def Let_def)
  show ?thesis
    using assms(2)
    by (simp add: scaleRevisionByLoad_load [OF assms(1)] report_eq started_def TearDown_def
          length_fixed_cases pc)
qed

theorem one_record_per_percentile_witness:
  "reaches_load exact_fpu env_ok ''TestScaleRevisionByLoad/clients-010'' 10 (Inr resp_ok) \<and>
   drop 6 (case fst (scaleRevisionByLoad exact_fpu env_ok
                       ''TestScaleRevisionByLoad/clients-010'' 10 empty_world) of
             Inr recs \<Rightarrow> recs | Inl _ \<Rightarrow> []) =
     [\<lparr> metricValue = 125, metricName = ''p50(ms)'',
        testName = ''TestScaleRevisionByLoad/clients-010'' \<rparr>,
      \<lparr> metricValue = 500, metricName = ''p99(ms)'',
        testName = ''TestScaleRevisionByLoad/clients-010'' \<rparr>]"
proof -
  from one_record_per_percentile [OF reaches_load_ok resp_ok_Result,
          of "''TestScaleRevisionByLoad/clients-010''" 10 empty_world]
  have "\<exists>recs w'. scaleRevisionByLoad exact_fpu env_ok ''TestScaleRevisionByLoad/clients-010'' 10
                     empty_world = (Inr recs, w')"
    by blast
  then show ?thesis
    by (simp add: eval_ok reaches_load_ok)
qed

section \<open>Failures of one tier\<close>

text \<open>
  Claim C5, as amended. When a tier gets through its load run, the read of
  \<open>resp.Result[0]\<close> is not guarded: on an empty result it raises the run-time panic
  "index out of range", which is not a \<open>t.Fatalf\<close>, and the tier returns no records; on
  a result with a first entry the tier returns its records. In both cases the tier has
  started its informer and has closed the stop channel of that informer, so the panic
  comes after the stop channel has been closed.
\<close>

theorem empty_result_panics:
  assumes "reaches_load F env tName numClients (Inr resp)"
  shows "fst (scaleRevisionByLoad F env tName numClients w) =
     (case Result resp of
        [] \<Rightarrow> Inl (Panic ''runtime error: index out of range [0] with length 0'')
      | r0 # _ \<Rightarrow>
          Inr (fixed_cases F tName numClients resp r0
               @ map (scale_case F tName (StartTime r0))
                   (recorded (ObjectNameForTest env) (notifications env))
               @ map (percentile_case F tName) (Percentiles r0)))
     \<and> informers (snd (scaleRevisionByLoad F env tName numClients w)) =
         informers w @ [(length (chans w), length (slices w))]
     \<and> chans (snd (scaleRevisionByLoad F env tName numClients w)) = chans w @ [True]"
  by (simp add: scaleRevisionByLoad_load [OF assms] report_eq started_def TearDown_def)

theorem empty_result_panics_witness:
  "reaches_load exact_fpu env_empty_result ''TestScaleRevisionByLoad/clients-010'' 10 (Inr resp_empty) \<and>
   Result resp_empty = [] \<and>
   fst (scaleRevisionByLoad exact_fpu env_empty_result ''TestScaleRevisionByLoad/clients-010'' 10
          empty_world) =
     Inl (Panic ''runtime error: index out of range [0] with length 0'') \<and>
   informers (snd (scaleRevisionByLoad exact_fpu env_empty_result
                     ''TestScaleRevisionByLoad/clients-010'' 10 empty_world)) = [(0, 0)] \<and>
   chans (snd (scaleRevisionByLoad exact_fpu env_empty_result
                 ''TestScaleRevisionByLoad/clients-010'' 10 empty_world)) = [True]"
proof -
  have e: "Result resp_empty = []"
    by (simp add: resp_empty_def)
  have w: "informers empty_world = []" "chans empty_world = []" "slices empty_world = []"
    by (simp_all add: empty_world_def)
  from empty_result_panics [OF reaches_load_empty, of "''TestScaleRevisionByLoad/clients-010''" 10 empty_world]
  show ?thesis
    by (simp only: e w list.case reaches_load_empty simp_thms append_Nil list.size)
qed

text \<open>
  The claim C5 as it is written says that the first result entry is read only when there
  is one. On the empty result the harness closes the stop channel and then reads the
  entry: the tier ends with the panic of that read.
\<close>

theorem empty_result_counterexample:
  "scaleRevisionByLoad exact_fpu env_empty_result ''TestScaleRevisionByLoad/clients-010'' 10 empty_world =
     (Inl (Panic ''runtime error: index out of range [0] with length 0''),
      \<lparr> slices = [[\<lparr> oldScale = 1, newScale = 2, timestamp = 15000000000 \<rparr>,
                    \<lparr> oldScale = 2, newScale = 3, timestamp = 7500000000 \<rparr>]],
        chans = [True], informers = [(0, 0)], tornDown = [''svc''], ran = [] \<rparr>)"
  by (simp add: scaleRevisionByLoad_def serve_tier_def measure_tier_eq env_empty_result_def resp_empty_def env_ok_def
        started_def TearDown_def empty_world_def svc_recorded report_eq)

text \<open>
  Claim C4. When the load generator returns an error, the harness calls \<open>t.Fatalf\<close>
  before it reaches \<open>close(stopCh)\<close>: the deferred \<open>TearDown\<close> runs, but the stop
  channel of the informer that was started stays open.
\<close>

theorem load_failure_leaves_watcher_running:
  "scaleRevisionByLoad exact_fpu env_load_fails ''TestScaleRevisionByLoad/clients-010'' 10 empty_world =
     (Inl (Fatalf ''Generating traffic via fortio failed: connection refused''),
      \<lparr> slices = [[\<lparr> oldScale = 1, newScale = 2, timestamp = 15000000000 \<rparr>,
                    \<lparr> oldScale = 2, newScale = 3, timestamp = 7500000000 \<rparr>]],
        chans = [False], informers = [(0, 0)], tornDown = [''svc''], ran = [] \<rparr>)"
  by (simp add: scaleRevisionByLoad_def serve_tier_def measure_tier_eq env_load_fails_def env_ok_def
        started_def TearDown_def empty_world_def svc_recorded)

section \<open>The sweep\<close>

text \<open>
  Claim C2, as amended. A tier that fails with \<open>t.Fatalf\<close> (setup, service creation,
  endpoint lookup, readiness or load-generator failure) ends only its own sub-test: it
  contributes no records and the sweep goes on with the next tier. In a sweep in which no
  tier panics, every tier is started, the result holds the records of every tier that
  returned, before or after a failed one, in the order of the tiers, and the failed
  sub-tests are the tiers that did not return.
\<close>

theorem sweep_continues_after_failed_tier:
  assumes "no_panic F envs tName i tiers"
  shows "fst (tiers_loop F envs tName i tiers s w) =
           Inr (s\<lparr> tc := tc s @ sweep_records F envs tName i tiers,
                    failed := failed s @ sweep_failed F envs tName i tiers \<rparr>)
         \<and> ran (snd (tiers_loop F envs tName i tiers s w)) = ran w @ map (subtest_name tName) tiers"
  using assms
proof (induction tiers arbitrary: i s w)
  case Nil
  then show ?case by simp
next
  case (Cons n tiers)
  let ?sub = "subtest_name tName n"
  let ?w0 = "w\<lparr> ran := ran w @ [?sub] \<rparr>"
  obtain r w1 where t: "scaleRevisionByLoad F (envs i) ?sub n ?w0 = (r, w1)"
    by (cases "scaleRevisionByLoad F (envs i) ?sub n ?w0")
  have r: "tier_result F (envs i) ?sub n = r"
    using tier_independent [of F "envs i" ?sub n ?w0] by (simp add: t)
  have w1: "ran w1 = ran w @ [?sub]"
    using ran_tier [of F "envs i" ?sub n ?w0] by (simp add: t)
  from Cons.prems have np: "no_panic F envs tName (Suc i) tiers"
    and nt: "\<not> tier_panics F (envs i) ?sub n"
    by simp_all
  show ?case
  proof (cases r)
    case (Inl e)
    with nt r obtain msg where e: "e = Fatalf msg"
      by (cases e) (simp_all add: tier_panics_def)
    show ?thesis
      using Cons.IH [OF np, of "s\<lparr> failed := failed s @ [?sub] \<rparr>" w1] t r Inl e w1
      by (simp add: Let_def)
  next
    case (Inr recs)
    show ?thesis
      using Cons.IH [OF np, of "s\<lparr> tc := tc s @ recs \<rparr>" w1] t r Inr w1
      by (simp add: Let_def)
  qed
qed

theorem sweep_continues_after_failed_tier_witness:
  "no_panic exact_fpu sweep_envs ''TestScaleRevisionByLoad'' 0 [10, 20] \<and>
   fst (tiers_loop exact_fpu sweep_envs ''TestScaleRevisionByLoad'' 0 [10, 20]
          \<lparr> tc = [], failed = [] \<rparr> empty_world) =
     Inr \<lparr> tc = [\<lparr> metricValue = 1200, metricName = ''requestCount'',
                    testName = ''TestScaleRevisionByLoad/clients-020'' \<rparr>,
                 \<lparr> metricValue = 200, metricName = ''requestedQPS'',
                    testName = ''TestScaleRevisionByLoad/clients-020'' \<rparr>,
                 \<lparr> metricValue = 200, metricName = ''actualQPS'',
                    testName = ''TestScaleRevisionByLoad/clients-020'' \<rparr>,
                 \<lparr> metricValue = 0, metricName = ''errorsPercentage'',
                    testName = ''TestScaleRevisionByLoad/clients-020'' \<rparr>,
                 \<lparr> metricValue = 125, metricName = ''p50(ms)'',
                    testName = ''TestScaleRevisionByLoad/clients-020'' \<rparr>],
           failed = [''TestScaleRevisionByLoad/clients-010''] \<rparr> \<and>
   ran (snd (tiers_loop exact_fpu sweep_envs ''TestScaleRevisionByLoad'' 0 [10, 20]
               \<lparr> tc = [], failed = [] \<rparr> empty_world)) =
     [''TestScaleRevisionByLoad/clients-010'', ''TestScaleRevisionByLoad/clients-020'']"
proof -
  have np: "no_panic exact_fpu sweep_envs ''TestScaleRevisionByLoad'' 0 [10, 20]"
    by (simp add: tier_panics_def tier_result_def sweep_envs_at eval_setup_fails eval_quiet)
  from sweep_continues_after_failed_tier [OF np, of "\<lparr> tc = [], failed = [] \<rparr>" empty_world]
  have "fst (tiers_loop exact_fpu sweep_envs ''TestScaleRevisionByLoad'' 0 [10, 20]
          \<lparr> tc = [], failed = [] \<rparr> empty_world) =
     Inr \<lparr> tc = [\<lparr> metricValue = 1200, metricName = ''requestCount'',
                    testName = ''TestScaleRevisionByLoad/clients-020'' \<rparr>,
                 \<lparr> metricValue = 200, metricName = ''requestedQPS'',
                    testName = ''TestScaleRevisionByLoad/clients-020'' \<rparr>,
                 \<lparr> metricValue = 200, metricName = ''actualQPS'',
                    testName = ''TestScaleRevisionByLoad/clients-020'' \<rparr>,
                 \<lparr> metricValue = 0, metricName = ''errorsPercentage'',
                    testName = ''TestScaleRevisionByLoad/clients-020'' \<rparr>,
                 \<lparr> metricValue = 125, metricName = ''p50(ms)'',
                    testName = ''TestScaleRevisionByLoad/clients-020'' \<rparr>],
           failed = [''TestScaleRevisionByLoad/clients-010''] \<rparr> \<and>
   ran (snd (tiers_loop exact_fpu sweep_envs ''TestScaleRevisionByLoad'' 0 [10, 20]
               \<lparr> tc = [], failed = [] \<rparr> empty_world)) =
     [''TestScaleRevisionByLoad/clients-010'', ''TestScaleRevisionByLoad/clients-020'']"
    by (simp add: tier_result_def sweep_envs_at eval_setup_fails eval_quiet subtest_names
          empty_world_def Let_def)
  with np show ?thesis
    by (rule conjI)
qed

text \<open>
  The claim C2 as it is written says that no tier after the first failing one is run. In
  the sweep over the six tiers in which only the tier with 20 clients gets through its
  setup, the tier with 10 clients fails first, and the tier with 20 clients is run after
  it and its records are the result.
\<close>

theorem sweep_stops_counterexample:
  "TestScaleRevisionByLoad exact_fpu sweep_envs empty_world =
     (Inr \<lparr> tc = [\<lparr> metricValue = 1200, metricName = ''requestCount'',
                     testName = ''TestScaleRevisionByLoad/clients-020'' \<rparr>,
                  \<lparr> metricValue = 200, metricName = ''requestedQPS'',
                     testName = ''TestScaleRevisionByLoad/clients-020'' \<rparr>,
                  \<lparr> metricValue = 200, metricName = ''actualQPS'',
                     testName = ''TestScaleRevisionByLoad/clients-020'' \<rparr>,
                  \<lparr> metricValue = 0, metricName = ''errorsPercentage'',
                     testName = ''TestScaleRevisionByLoad/clients-020'' \<rparr>,
                  \<lparr> metricValue = 125, metricName = ''p50(ms)'',
                     testName = ''TestScaleRevisionByLoad/clients-020'' \<rparr>],
            failed = [''TestScaleRevisionByLoad/clients-010'',
                      ''TestScaleRevisionByLoad/clients-040'',
                      ''TestScaleRevisionByLoad/clients-080'',
                      ''TestScaleRevisionByLoad/clients-160'',
                      ''TestScaleRevisionByLoad/clients-320''] \<rparr>,
      \<lparr> slices = [[]], chans = [True], informers = [(0, 0)], tornDown = [''svc''],
        ran = [''TestScaleRevisionByLoad/clients-010'',
               ''TestScaleRevisionByLoad/clients-020'',
               ''TestScaleRevisionByLoad/clients-040'',
               ''TestScaleRevisionByLoad/clients-080'',
               ''TestScaleRevisionByLoad/clients-160'',
               ''TestScaleRevisionByLoad/clients-320''] \<rparr>)"
  by (simp add: TestScaleRevisionByLoad_def concurrentClients_def sweep_envs_at eval_setup_fails
        eval_quiet subtest_names empty_world_def Let_def)


end
